theory Spec2Isabelle
  imports Complex_Main "HOL-Library.Log_Nat"
begin

section \<open>Data model\<close>

text \<open>
  A string is a list of characters, a character a code unit below 256. A stored
  ObjectId is written as its 24 lower-case hexadecimal digits. A JavaScript number is a
  binary64 value: a rational (the finite values), \<open>NaN\<close> or an infinity; the sign of a
  zero is not kept. The prices, ratings and averages that the store holds are finite
  numbers, its quantities integers; \<open>NaN\<close> and the infinities come up in what the code
  computes. An order's \<open>orderNumber\<close> that is absent is the empty string: the schema's
  \<open>required\<close> and the hook's \<open>!this.orderNumber\<close> treat the two alike.
\<close>

type_synonym objectId = string

datatype jsnum = Num rat | NaN | PosInf | NegInf

record product =
  price :: rat
  quantity :: int
  farmer :: objectId
  isAvailable :: bool
  isApproved :: bool
  isActive :: bool
  rating_average :: rat
  rating_count :: nat

datatype status = Pending | Confirmed | Processing | Shipped | Delivered | Cancelled

datatype payment_status = PaymentPending | Paid | Failed | Refunded

record order_item =
  item_product :: objectId
  item_quantity :: int
  item_price :: rat
  item_farmer :: objectId

record shipping_address =
  county :: string
  subCounty :: string
  ward :: string
  specificLocation :: string
  contactPhone :: string
  additionalNotes :: "string option"

record order =
  order_id :: objectId
  orderNumber :: string
  buyer :: objectId
  items :: "order_item list"
  totalAmount :: jsnum
  paymentMethod :: string
  shippingAddress :: shipping_address
  deliveryNotes :: "string option"
  farmerNotes :: "string option"
  status :: status
  paymentStatus :: payment_status
  order_isActive :: bool

record review =
  review_id :: objectId
  review_product :: objectId
  review_buyer :: objectId
  review_order :: objectId
  rating :: rat
  comment :: "string option"
  isVerified :: bool
  review_isActive :: bool

record state =
  products :: "objectId \<rightharpoonup> product"
  orders :: "order list"
  reviews :: "review list"

datatype error =
    ValidationFailed
  | ProductUnavailable string
  | InsufficientStock objectId
  | OrderNotFound
  | Forbidden
  | InvalidTransition status status
  | DuplicateReview
  | ProductSaveRejected
  | ServerError

section \<open>JavaScript numbers\<close>

text \<open>
  The exponent \<open>e\<close> of a positive rational \<open>a\<close>: \<open>2 ^ e \<le> a < 2 ^ (e + 1)\<close>.
\<close>

definition binary_exponent :: "rat \<Rightarrow> int" where
  "binary_exponent a =
     (case quotient_of a of (p, q) \<Rightarrow>
        let d = bitlen p - bitlen q in if 2 powi d \<le> a then d else d - 1)"

definition round_half_even :: "rat \<Rightarrow> int" where
  "round_half_even q =
     (let n = \<lfloor>q\<rfloor>; r = q - of_int n
      in if r < 1 / 2 then n else if 1 / 2 < r then n + 1 else if even n then n else n + 1)"

text \<open>
  The binary64 value of an exact result: the nearest multiple of the unit in the last of
  53 binary digits (of \<open>2 ^ - 1074\<close> below the normal range), a tie going to the even
  one, and an infinity from \<open>2 ^ 1024\<close> on.
\<close>

definition fl :: "rat \<Rightarrow> jsnum" where
  "fl x =
     (if x = 0 then Num 0
      else let u = 2 powi (max (binary_exponent \<bar>x\<bar>) (- 1022) - 52);
               y = of_int (round_half_even (x / u)) * u
           in if 2 ^ 1024 \<le> y then PosInf else if y \<le> - (2 ^ 1024) then NegInf else Num y)"

text \<open>\<open>a + b\<close>, \<open>a * b\<close> and \<open>a / b\<close> on numbers.\<close>

fun js_plus :: "jsnum \<Rightarrow> jsnum \<Rightarrow> jsnum" where
  "js_plus (Num a) (Num b) = fl (a + b)"
| "js_plus NaN b = NaN"
| "js_plus a NaN = NaN"
| "js_plus PosInf NegInf = NaN"
| "js_plus NegInf PosInf = NaN"
| "js_plus PosInf b = PosInf"
| "js_plus a PosInf = PosInf"
| "js_plus NegInf b = NegInf"
| "js_plus a NegInf = NegInf"

fun js_times :: "jsnum \<Rightarrow> jsnum \<Rightarrow> jsnum" where
  "js_times (Num a) (Num b) = fl (a * b)"
| "js_times NaN b = NaN"
| "js_times a NaN = NaN"
| "js_times PosInf (Num b) = (if b = 0 then NaN else if 0 < b then PosInf else NegInf)"
| "js_times NegInf (Num b) = (if b = 0 then NaN else if 0 < b then NegInf else PosInf)"
| "js_times (Num a) PosInf = (if a = 0 then NaN else if 0 < a then PosInf else NegInf)"
| "js_times (Num a) NegInf = (if a = 0 then NaN else if 0 < a then NegInf else PosInf)"
| "js_times PosInf PosInf = PosInf"
| "js_times NegInf NegInf = PosInf"
| "js_times PosInf NegInf = NegInf"
| "js_times NegInf PosInf = NegInf"

fun js_over :: "jsnum \<Rightarrow> jsnum \<Rightarrow> jsnum" where
  "js_over (Num a) (Num b) =
     (if b \<noteq> 0 then fl (a / b)
      else if a = 0 then NaN else if 0 < a then PosInf else NegInf)"
| "js_over NaN b = NaN"
| "js_over a NaN = NaN"
| "js_over (Num a) b = Num 0"
| "js_over PosInf (Num b) = (if 0 \<le> b then PosInf else NegInf)"
| "js_over NegInf (Num b) = (if 0 \<le> b then NegInf else PosInf)"
| "js_over a b = NaN"

text \<open>\<open>Math.round\<close>: the nearest integer, a tie going up.\<close>

fun math_round :: "jsnum \<Rightarrow> jsnum" where
  "math_round (Num x) = Num (of_int \<lfloor>x + 1 / 2\<rfloor>)"
| "math_round x = x"

section \<open>Request validation (the express-validator chains)\<close>

text \<open>
  The white space that the validator's \<open>trim\<close> and the schema's \<open>trim: true\<close> strip
  (the class \<^verbatim>\<open>\s\<close>), as far as it lies below 256: tab, line feed, vertical tab, form
  feed, carriage return, space and the no-break space.
\<close>

definition is_space :: "char \<Rightarrow> bool" where
  "is_space c =
     (c \<in> set [CHR 0x09, CHR 0x0A, CHR 0x0B, CHR 0x0C, CHR 0x0D, CHR '' '', CHR 0xA0])"

definition trim :: "string \<Rightarrow> string" where
  "trim s = rev (dropWhile is_space (rev (dropWhile is_space s)))"

definition is_digit :: "char \<Rightarrow> bool" where
  "is_digit c = (c \<in> set ''0123456789'')"

definition is_hex :: "char \<Rightarrow> bool" where
  "is_hex c = (c \<in> set ''0123456789abcdefABCDEF'')"

text \<open>
  \<open>isMongoId\<close>: 24 characters that are a hexadecimal numeral, which may begin with
  \<^verbatim>\<open>0x\<close> or \<^verbatim>\<open>0h\<close> in either case (\<^verbatim>\<open>/^(0x|0h)?[0-9A-F]+$/i\<close>).
\<close>

definition isHexadecimal :: "string \<Rightarrow> bool" where
  "isHexadecimal s =
     ((s \<noteq> [] \<and> list_all is_hex s) \<or>
      (take 2 s \<in> set [''0x'', ''0X'', ''0h'', ''0H''] \<and> drop 2 s \<noteq> [] \<and>
       list_all is_hex (drop 2 s)))"

definition isMongoId :: "string \<Rightarrow> bool" where
  "isMongoId s = (isHexadecimal s \<and> length s = 24)"

text \<open>
  The cast of a string to an ObjectId that a query by \<open>_id\<close> makes: 24 hexadecimal
  digits, read in either case; on any other string the cast fails and the query rejects.
\<close>

definition lower_hex :: "char \<Rightarrow> char" where
  "lower_hex c =
     (if c = CHR ''A'' then CHR ''a'' else if c = CHR ''B'' then CHR ''b''
      else if c = CHR ''C'' then CHR ''c'' else if c = CHR ''D'' then CHR ''d''
      else if c = CHR ''E'' then CHR ''e'' else if c = CHR ''F'' then CHR ''f'' else c)"

definition cast_ObjectId :: "string \<Rightarrow> objectId option" where
  "cast_ObjectId s =
     (if length s = 24 \<and> list_all is_hex s then Some (map lower_hex s) else None)"

text \<open>The pattern \<^verbatim>\<open>/^(\+254|0)[0-9]{9}$/\<close>.\<close>

definition valid_phone :: "string \<Rightarrow> bool" where
  "valid_phone s =
     ((take 4 s = ''+254'' \<and> length (drop 4 s) = 9 \<and> list_all is_digit (drop 4 s)) \<or>
      (take 1 s = ''0'' \<and> length (drop 1 s) = 9 \<and> list_all is_digit (drop 1 s)))"

record req_item =
  productId :: string
  req_quantity :: int

record order_request =
  req_items :: "req_item list"
  req_paymentMethod :: string
  req_shippingAddress :: shipping_address
  req_deliveryNotes :: "string option"

definition valid_order_request :: "order_request \<Rightarrow> bool" where
  "valid_order_request r =
     (length (req_items r) \<ge> 1 \<and>
      list_all (\<lambda>it. isMongoId (productId it)) (req_items r) \<and>
      list_all (\<lambda>it. req_quantity it \<ge> 1) (req_items r) \<and>
      req_paymentMethod r \<in> set [''mpesa'', ''cash'', ''bank_transfer'', ''other''] \<and>
      trim (county (req_shippingAddress r)) \<noteq> [] \<and>
      trim (subCounty (req_shippingAddress r)) \<noteq> [] \<and>
      trim (ward (req_shippingAddress r)) \<noteq> [] \<and>
      trim (specificLocation (req_shippingAddress r)) \<noteq> [] \<and>
      valid_phone (contactPhone (req_shippingAddress r)))"

text \<open>The \<open>trim\<close> sanitizers write the trimmed fields back into the request body.\<close>

definition sanitize_address :: "shipping_address \<Rightarrow> shipping_address" where
  "sanitize_address a =
     a\<lparr>county := trim (county a), subCounty := trim (subCounty a), ward := trim (ward a),
       specificLocation := trim (specificLocation a)\<rparr>"

section \<open>Order Processor: POST /api/orders\<close>

text \<open>
  The body of the handler's first loop, for one requested item: \<open>Product.findById\<close>
  casts the id (a string it cannot cast makes the query reject, which the handler's
  \<open>catch\<close> answers with status 500); an absent, inactive, unapproved or unavailable
  product is refused, and so is a request beyond the stock read. What is left is the
  line item to push, with the id, price and farmer of the product read, and the item's
  total. The requested quantity is an integer numeral from 1 on (the validator's
  \<open>isInt\<close> has refused every other), which JavaScript reads as a number: a finite one or,
  from \<open>2 ^ 1024\<close> on, \<open>Infinity\<close>, which is beyond every stock.
\<close>

definition check_item :: "(objectId \<rightharpoonup> product) \<Rightarrow> req_item \<Rightarrow> error + (order_item \<times> jsnum)" where
  "check_item ps it =
     (case cast_ObjectId (productId it) of
        None \<Rightarrow> Inl ServerError
      | Some pid \<Rightarrow>
          (case ps pid of
             None \<Rightarrow> Inl (ProductUnavailable (productId it))
           | Some p \<Rightarrow>
               if \<not> isActive p \<or> \<not> isApproved p \<or> \<not> isAvailable p
               then Inl (ProductUnavailable (productId it))
               else (case fl (of_int (req_quantity it)) of
                       Num q \<Rightarrow>
                         if of_int (quantity p) < q then Inl (InsufficientStock pid)
                         else Inr (\<lparr>item_product = pid, item_quantity = \<lfloor>q\<rfloor>,
                                    item_price = price p, item_farmer = farmer p\<rparr>,
                                   js_times (Num (price p)) (Num q))
                     | _ \<Rightarrow> Inl (InsufficientStock pid))))"

text \<open>The first loop, with its two accumulators \<open>orderItems\<close> and \<open>totalAmount\<close>.\<close>

fun validate_items ::
  "(objectId \<rightharpoonup> product) \<Rightarrow> req_item list \<Rightarrow> order_item list \<Rightarrow> jsnum \<Rightarrow>
     error + (order_item list \<times> jsnum)" where
  "validate_items ps [] orderItems amount = Inr (orderItems, amount)"
| "validate_items ps (it # its) orderItems amount =
     (case check_item ps it of
        Inl e \<Rightarrow> Inl e
      | Inr (line, itemTotal) \<Rightarrow>
          validate_items ps its (orderItems @ [line]) (js_plus amount itemTotal))"

text \<open>\<open>Product.findByIdAndUpdate(id, {$inc: {quantity: d}})\<close>: no document, no change.\<close>

definition inc_quantity :: "(objectId \<rightharpoonup> product) \<Rightarrow> objectId \<Rightarrow> int \<Rightarrow> (objectId \<rightharpoonup> product)" where
  "inc_quantity ps pid d =
     (case ps pid of None \<Rightarrow> ps | Some p \<Rightarrow> ps(pid \<mapsto> p\<lparr>quantity := quantity p + d\<rparr>))"

text \<open>The second loop: one unconditional decrement per line item.\<close>

fun decrement_all :: "(objectId \<rightharpoonup> product) \<Rightarrow> order_item list \<Rightarrow> (objectId \<rightharpoonup> product)" where
  "decrement_all ps [] = ps"
| "decrement_all ps (l # ls) = decrement_all (inc_quantity ps (item_product l) (- item_quantity l)) ls"

text \<open>
  \<open>new Order({buyer, items, totalAmount, paymentMethod, shippingAddress, deliveryNotes})\<close>
  under the order schema: the handler passes no \<open>orderNumber\<close>; the strings of the
  address and the notes are trimmed (\<open>trim: true\<close>); \<open>status\<close>, \<open>paymentStatus\<close> and
  \<open>isActive\<close> take their defaults. The \<open>_id\<close> the document gets is a parameter.
\<close>

definition schema_address :: "shipping_address \<Rightarrow> shipping_address" where
  "schema_address a =
     \<lparr>county = trim (county a), subCounty = trim (subCounty a), ward = trim (ward a),
      specificLocation = trim (specificLocation a), contactPhone = trim (contactPhone a),
      additionalNotes = map_option trim (additionalNotes a)\<rparr>"

definition new_Order ::
  "objectId \<Rightarrow> objectId \<Rightarrow> order_item list \<Rightarrow> jsnum \<Rightarrow> string \<Rightarrow> shipping_address \<Rightarrow>
     string option \<Rightarrow> order" where
  "new_Order oid user orderItems amount pm addr notes =
     \<lparr>order_id = oid, orderNumber = [], buyer = user, items = orderItems,
      totalAmount = amount, paymentMethod = pm, shippingAddress = schema_address addr,
      deliveryNotes = map_option trim notes, farmerNotes = None, status = Pending,
      paymentStatus = PaymentPending, order_isActive = True\<rparr>"

text \<open>
  The validators of the order schema, which \<open>save()\<close> runs first: \<open>orderNumber\<close> and the
  strings of the address but \<open>additionalNotes\<close> are required (an empty string is not
  enough), a line's quantity is at least 1 and its price at least 0, \<open>totalAmount\<close> is a
  number from 0 on, and \<open>paymentMethod\<close> is one of four.
\<close>

definition valid_order_doc :: "order \<Rightarrow> bool" where
  "valid_order_doc ord =
     (orderNumber ord \<noteq> [] \<and>
      list_all (\<lambda>l. 1 \<le> item_quantity l \<and> 0 \<le> item_price l) (items ord) \<and>
      (case totalAmount ord of Num a \<Rightarrow> 0 \<le> a | PosInf \<Rightarrow> True | _ \<Rightarrow> False) \<and>
      paymentMethod ord \<in> set [''mpesa'', ''cash'', ''bank_transfer'', ''other''] \<and>
      county (shippingAddress ord) \<noteq> [] \<and> subCounty (shippingAddress ord) \<noteq> [] \<and>
      ward (shippingAddress ord) \<noteq> [] \<and> specificLocation (shippingAddress ord) \<noteq> [] \<and>
      contactPhone (shippingAddress ord) \<noteq> [])"

text \<open>The decimal numeral of a natural number (\<open>toString()\<close>).\<close>

function decimal :: "nat \<Rightarrow> string" where
  "decimal n =
     (if n < 10 then [''0123456789'' ! n]
      else decimal (n div 10) @ [''0123456789'' ! (n mod 10)])"
  by pat_completeness auto

termination decimal
  by (relation "measure id") auto

declare decimal.simps [simp del]

text \<open>
  \<open>orderSchema.pre('save')\<close>: an order without a number gets \<^verbatim>\<open>ORD-\<close>, the last six
  digits of the clock's milliseconds, a dash, and a random number below 1000 in three
  digits. The clock \<open>now\<close> and the number \<open>rnd\<close> drawn are parameters.
\<close>

definition pre_save :: "nat \<Rightarrow> nat \<Rightarrow> order \<Rightarrow> order" where
  "pre_save now rnd ord =
     (if orderNumber ord = []
      then ord\<lparr>orderNumber :=
             ''ORD-'' @ drop (length (decimal now) - 6) (decimal now) @ ''-'' @
             replicate (3 - length (decimal rnd)) (CHR ''0'') @ decimal rnd\<rparr>
      else ord)"

text \<open>
  \<open>order.save()\<close> on a new document. Mongoose validates the document before it runs
  the schema's own \<open>pre('save')\<close> hooks, so the hook that generates the number runs on
  validated documents only; then the insert, which the unique index on \<open>orderNumber\<close>
  refuses for a number already stored. \<open>None\<close>: \<open>save()\<close> rejects and nothing is stored.
\<close>

definition Order_save :: "nat \<Rightarrow> nat \<Rightarrow> order list \<Rightarrow> order \<Rightarrow> (order \<times> order list) option" where
  "Order_save now rnd os ord =
     (if \<not> valid_order_doc ord then None
      else let ord' = pre_save now rnd ord
           in if list_ex (\<lambda>x. orderNumber x = orderNumber ord') os then None
              else Some (ord', os @ [ord']))"

text \<open>
  The handler: validation (status 400), the first loop (status 400 on a refused item),
  the new document and its \<open>save()\<close>, whose rejection the \<open>catch\<close> branch answers with
  status 500; after a save, the second loop and the response with the order read back.
\<close>

definition createOrder ::
  "state \<Rightarrow> objectId \<Rightarrow> nat \<Rightarrow> nat \<Rightarrow> objectId \<Rightarrow> order_request \<Rightarrow> (error + order) \<times> state" where
  "createOrder s oid now rnd user req =
     (if \<not> valid_order_request req then (Inl ValidationFailed, s)
      else case validate_items (products s) (req_items req) [] (Num 0) of
          Inl e \<Rightarrow> (Inl e, s)
        | Inr (orderItems, amount) \<Rightarrow>
            (case Order_save now rnd (orders s)
                    (new_Order oid user orderItems amount (req_paymentMethod req)
                       (sanitize_address (req_shippingAddress req)) (req_deliveryNotes req)) of
               None \<Rightarrow> (Inl ServerError, s)
             | Some (ord, os) \<Rightarrow>
                 (Inr ord, s\<lparr>orders := os, products := decrement_all (products s) orderItems\<rparr>)))"

section \<open>Order State Machine: PUT /api/orders/:id/status\<close>

record status_request =
  req_status :: string
  req_notes :: "string option"

definition parse_status :: "string \<Rightarrow> status option" where
  "parse_status x =
     (if x = ''pending'' then Some Pending
      else if x = ''confirmed'' then Some Confirmed
      else if x = ''processing'' then Some Processing
      else if x = ''shipped'' then Some Shipped
      else if x = ''delivered'' then Some Delivered
      else if x = ''cancelled'' then Some Cancelled
      else None)"

text \<open>
  The chain on \<open>notes\<close> is optional: an absent field is not checked; a present one is
  trimmed (the trimmed text replaces it in the body) and may hold up to 500 characters.
\<close>

definition valid_status_request :: "status_request \<Rightarrow> bool" where
  "valid_status_request r =
     (parse_status (req_status r) \<noteq> None \<and>
      (case req_notes r of None \<Rightarrow> True | Some n \<Rightarrow> length (trim n) \<le> 500))"

fun validTransitions :: "status \<Rightarrow> status list" where
  "validTransitions Pending = [Confirmed, Cancelled]"
| "validTransitions Confirmed = [Processing, Cancelled]"
| "validTransitions Processing = [Shipped, Cancelled]"
| "validTransitions Shipped = [Delivered]"
| "validTransitions Delivered = []"
| "validTransitions Cancelled = []"

definition findById_order :: "order list \<Rightarrow> objectId \<Rightarrow> order option" where
  "findById_order os oid = find (\<lambda>ord. order_id ord = oid) os"

definition save_order :: "order list \<Rightarrow> order \<Rightarrow> order list" where
  "save_order os ord' = map (\<lambda>ord. if order_id ord = order_id ord' then ord' else ord) os"

text \<open>
  The assignment of the notes: nothing for absent or empty notes (they are falsy),
  \<open>farmerNotes\<close> when the actor is one of the line items' farmers, \<open>deliveryNotes\<close>
  otherwise.
\<close>

definition attach_notes :: "order \<Rightarrow> string option \<Rightarrow> bool \<Rightarrow> order" where
  "attach_notes ord notes isFarmer =
     (case notes of
        None \<Rightarrow> ord
      | Some n \<Rightarrow>
          if n = [] then ord
          else if isFarmer then ord\<lparr>farmerNotes := Some n\<rparr>
          else ord\<lparr>deliveryNotes := Some n\<rparr>)"

text \<open>
  The populated farmer of every line item is taken to resolve, so that
  \<open>item.farmer._id\<close> is the stored farmer id.
\<close>

definition updateStatus ::
  "state \<Rightarrow> objectId \<Rightarrow> objectId \<Rightarrow> status_request \<Rightarrow> (error + order) \<times> state" where
  "updateStatus s oid user req =
     (if \<not> valid_status_request req then (Inl ValidationFailed, s)
      else case parse_status (req_status req) of
          None \<Rightarrow> (Inl ValidationFailed, s)
        | Some newStatus \<Rightarrow>
            let notes = map_option trim (req_notes req) in
            (case findById_order (orders s) oid of
               None \<Rightarrow> (Inl OrderNotFound, s)
             | Some ord \<Rightarrow>
                 if \<not> order_isActive ord then (Inl OrderNotFound, s)
                 else
                   let isBuyer = (buyer ord = user);
                       isFarmer = list_ex (\<lambda>item. item_farmer item = user) (items ord)
                   in if \<not> isBuyer \<and> \<not> isFarmer then (Inl Forbidden, s)
                      else if newStatus \<notin> set (validTransitions (status ord))
                      then (Inl (InvalidTransition (status ord) newStatus), s)
                      else
                        let ord' = attach_notes (ord\<lparr>status := newStatus\<rparr>) notes isFarmer
                        in (Inr ord', s\<lparr>orders := save_order (orders s) ord'\<rparr>)))"

section \<open>Rating Aggregator: the hooks of the review schema\<close>

definition active_reviews :: "review list \<Rightarrow> objectId \<Rightarrow> review list" where
  "active_reviews rs pid = filter (\<lambda>r. review_product r = pid \<and> review_isActive r) rs"

text \<open>\<open>reviews.reduce((sum, review) => sum + review.rating, 0)\<close>.\<close>

definition totalRating :: "review list \<Rightarrow> jsnum" where
  "totalRating rs = foldl (\<lambda>sum r. js_plus sum (Num (rating r))) (Num 0) rs"

text \<open>\<open>Math.round(averageRating * 10) / 10\<close> for \<open>averageRating = totalRating / reviews.length\<close>.\<close>

definition averageRating :: "review list \<Rightarrow> jsnum" where
  "averageRating rs = js_over (totalRating rs) (Num (of_nat (length rs)))"

definition round1 :: "jsnum \<Rightarrow> jsnum" where
  "round1 x = js_over (math_round (js_times x (Num 10))) (Num 10)"

text \<open>
  \<open>product.save()\<close> after the hook has assigned \<open>rating.average\<close> and \<open>rating.count\<close>:
  the path \<open>rating.average\<close> is a \<open>Number\<close> between 0 and 5, so \<open>NaN\<close> (which Mongoose
  does not cast to a \<open>Number\<close>) and a value out of the bounds make \<open>save()\<close> reject, and
  the stored product stays as it was. The other paths of the product are taken to be
  valid as stored. \<open>None\<close>: \<open>save()\<close> rejects.
\<close>

definition Product_save_rating :: "state \<Rightarrow> objectId \<Rightarrow> product \<Rightarrow> jsnum \<Rightarrow> nat \<Rightarrow> state option" where
  "Product_save_rating s pid p average n =
     (case average of
        Num a \<Rightarrow>
          if 0 \<le> a \<and> a \<le> 5
          then Some (s\<lparr>products := (products s)(pid \<mapsto> p\<lparr>rating_average := a, rating_count := n\<rparr>)\<rparr>)
          else None
      | _ \<Rightarrow> None)"

text \<open>
  \<open>reviewSchema.post('save')\<close>, document middleware: \<open>this\<close> is the saved review. There
  is no guard on the number of active reviews: with none, \<open>averageRating\<close> is \<open>0 / 0\<close>.
  \<open>None\<close>: the hook throws (its \<open>product.save()\<close> has rejected).
\<close>

definition post_save :: "state \<Rightarrow> review \<Rightarrow> state option" where
  "post_save s this =
     (case products s (review_product this) of
        None \<Rightarrow> Some s
      | Some p \<Rightarrow>
          let rs = active_reviews (reviews s) (review_product this)
          in Product_save_rating s (review_product this) p (round1 (averageRating rs)) (length rs))"

text \<open>
  \<open>reviewSchema.post('findOneAndDelete')\<close>, query middleware: \<open>this\<close> is the query, and
  \<open>this.product\<close> is what the argument \<open>this_product\<close> holds. \<open>Product.findById\<close> of
  \<open>undefined\<close> finds no document.
\<close>

definition post_findOneAndDelete :: "state \<Rightarrow> objectId option \<Rightarrow> state option" where
  "post_findOneAndDelete s this_product =
     (case this_product of
        None \<Rightarrow> Some s
      | Some pid \<Rightarrow>
          (case products s pid of
             None \<Rightarrow> Some s
           | Some p \<Rightarrow>
               let rs = active_reviews (reviews s) pid
               in if length rs > 0
                  then Product_save_rating s pid p (round1 (averageRating rs)) (length rs)
                  else Product_save_rating s pid p (Num 0) 0))"

text \<open>The schema's validators: \<open>rating\<close> between 1 and 5, a comment of at most 500 characters.\<close>

definition valid_review :: "review \<Rightarrow> bool" where
  "valid_review r =
     (1 \<le> rating r \<and> rating r \<le> 5 \<and>
      (case comment r of None \<Rightarrow> True | Some c \<Rightarrow> length c \<le> 500))"

text \<open>The unique index on \<open>(product, buyer)\<close>: is the key of \<open>r\<close> already in the collection?\<close>

definition duplicate_key :: "review list \<Rightarrow> review \<Rightarrow> bool" where
  "duplicate_key rs r =
     list_ex (\<lambda>r'. review_product r' = review_product r \<and> review_buyer r' = review_buyer r) rs"

text \<open>
  Submitting a review is \<open>save()\<close> on a new document: the schema validates it (the
  comment trimmed), the insert is refused on a duplicate key of the unique index, and
  the \<open>post('save')\<close> hook runs after a successful write only. When the hook throws,
  \<open>save()\<close> rejects with the review stored.
\<close>

definition submitReview :: "state \<Rightarrow> review \<Rightarrow> (error + review) \<times> state" where
  "submitReview s r0 =
     (let r = r0\<lparr>comment := map_option trim (comment r0)\<rparr> in
      if \<not> valid_review r then (Inl ValidationFailed, s)
      else if duplicate_key (reviews s) r then (Inl DuplicateReview, s)
      else (case post_save (s\<lparr>reviews := reviews s @ [r]\<rparr>) r of
              None \<Rightarrow> (Inl ProductSaveRejected, s\<lparr>reviews := reviews s @ [r]\<rparr>)
            | Some s' \<Rightarrow> (Inr r, s')))"

text \<open>
  Soft delete: \<open>isActive = false\<close> on a stored review, then \<open>save()\<close>: the schema's
  validators, the write, and the hook. The result is the store after the call, whether
  \<open>save()\<close> resolves or rejects: a review that is not valid is not written, and a hook
  that throws does so after the review is written.
\<close>

definition softDeleteReview :: "state \<Rightarrow> objectId \<Rightarrow> state" where
  "softDeleteReview s rid =
     (case find (\<lambda>r. review_id r = rid) (reviews s) of
        None \<Rightarrow> s
      | Some r \<Rightarrow>
          if \<not> valid_review r then s
          else
            let s1 = s\<lparr>reviews := map (\<lambda>x. if review_id x = rid then x\<lparr>review_isActive := False\<rparr> else x)
                                    (reviews s)\<rparr>
            in (case post_save s1 (r\<lparr>review_isActive := False\<rparr>) of None \<Rightarrow> s1 | Some s2 \<Rightarrow> s2))"

text \<open>
  Physical delete: \<open>findOneAndDelete\<close> by id, then its hook, run on the query: a query
  by \<open>_id\<close> has no \<open>product\<close>.
\<close>

definition deleteReview :: "state \<Rightarrow> objectId \<Rightarrow> state" where
  "deleteReview s rid =
     (case find (\<lambda>r. review_id r = rid) (reviews s) of
        None \<Rightarrow> s
      | Some r \<Rightarrow>
          let s1 = s\<lparr>reviews := filter (\<lambda>x. review_id x \<noteq> rid) (reviews s)\<rparr>
          in (case post_findOneAndDelete s1 None of None \<Rightarrow> s1 | Some s2 \<Rightarrow> s2))"

text \<open>The aggregate a product carries.\<close>

definition aggregate_of :: "state \<Rightarrow> objectId \<Rightarrow> (rat \<times> nat) option" where
  "aggregate_of s pid = map_option (\<lambda>p. (rating_average p, rating_count p)) (products s pid)"

section \<open>Auxiliary notions\<close>

text \<open>The status strings of the source, for the constructors that stand for them.\<close>

fun status_name :: "status \<Rightarrow> string" where
  "status_name Pending = ''pending''"
| "status_name Confirmed = ''confirmed''"
| "status_name Processing = ''processing''"
| "status_name Shipped = ''shipped''"
| "status_name Delivered = ''delivered''"
| "status_name Cancelled = ''cancelled''"

text \<open>No product has a negative quantity.\<close>

definition stock_nonneg :: "state \<Rightarrow> bool" where
  "stock_nonneg s = (\<forall>pid p. products s pid = Some p \<longrightarrow> 0 \<le> quantity p)"

text \<open>At most one review for each pair of a product and a buyer.\<close>

definition unique_reviews :: "review list \<Rightarrow> bool" where
  "unique_reviews rs = distinct (map (\<lambda>r. (review_product r, review_buyer r)) rs)"

section \<open>Handlers interleaved at their awaits\<close>

text \<open>
  Between two \<open>await\<close>s a handler runs alone; the store call it awaits is one operation
  on one document. The handler of POST /api/orders is cut at its awaits: a
  \<open>Product.findById\<close> for each requested item, \<open>order.save()\<close>, a
  \<open>Product.findByIdAndUpdate\<close> for each line item, and the \<open>Order.findById\<close> that reads
  the order back for the response. A task is where a handler stands: in the first loop
  with the items still to check and the two accumulators (none left: before the save),
  in the second loop with the lines still to decrement (none left: before the
  read-back), or done with its response. A step is one awaited call and the code up to
  the next.
\<close>

datatype task =
    Checking "req_item list" "order_item list" jsnum
  | Decrementing order "order_item list"
  | Responded "error + order"

record job =
  job_oid :: objectId
  job_now :: nat
  job_rnd :: nat
  job_user :: objectId
  job_req :: order_request

definition start :: "job \<Rightarrow> task" where
  "start j =
     (if \<not> valid_order_request (job_req j) then Responded (Inl ValidationFailed)
      else Checking (req_items (job_req j)) [] (Num 0))"

fun step :: "job \<Rightarrow> task \<Rightarrow> state \<Rightarrow> task \<times> state" where
  "step j (Checking (it # its) orderItems amount) s =
     (case check_item (products s) it of
        Inl e \<Rightarrow> (Responded (Inl e), s)
      | Inr (line, itemTotal) \<Rightarrow>
          (Checking its (orderItems @ [line]) (js_plus amount itemTotal), s))"
| "step j (Checking [] orderItems amount) s =
     (case Order_save (job_now j) (job_rnd j) (orders s)
             (new_Order (job_oid j) (job_user j) orderItems amount
                (req_paymentMethod (job_req j))
                (sanitize_address (req_shippingAddress (job_req j)))
                (req_deliveryNotes (job_req j))) of
        None \<Rightarrow> (Responded (Inl ServerError), s)
      | Some (ord, os) \<Rightarrow> (Decrementing ord orderItems, s\<lparr>orders := os\<rparr>))"
| "step j (Decrementing ord (l # ls)) s =
     (Decrementing ord ls,
      s\<lparr>products := inc_quantity (products s) (item_product l) (- item_quantity l)\<rparr>)"
| "step j (Decrementing ord []) s = (Responded (Inr ord), s)"
| "step j (Responded r) s = (Responded r, s)"

text \<open>A task of a handler that has saved no order: in its first loop, or answered with an error.\<close>

fun unsaved :: "task \<Rightarrow> bool" where
  "unsaved (Checking its orderItems amount) = True"
| "unsaved (Decrementing ord ls) = False"
| "unsaved (Responded r) = isl r"

text \<open>
  A schedule names, one after the other, the handler that takes the next step; a name
  out of range is skipped.
\<close>

fun run :: "nat list \<Rightarrow> (job \<times> task) list \<Rightarrow> state \<Rightarrow> (job \<times> task) list \<times> state" where
  "run [] ts s = (ts, s)"
| "run (i # sched) ts s =
     (if i < length ts
      then (case step (fst (ts ! i)) (snd (ts ! i)) s of
              (t', s') \<Rightarrow> run sched (ts[i := (fst (ts ! i), t')]) s')
      else run sched ts s)"

text \<open>The handler run without interruption is \<open>createOrder\<close> on the job's parameters.\<close>

definition handle :: "job \<Rightarrow> state \<Rightarrow> (error + order) \<times> state" where
  "handle j s = createOrder s (job_oid j) (job_now j) (job_rnd j) (job_user j) (job_req j)"

text \<open>
  A handler whose first \<open>k\<close> awaited store calls behave as above and whose next one
  throws for a reason of its own (the store is not reached, say): the call that throws
  changes nothing, and the \<open>catch\<close> branch answers with status 500.
\<close>

fun handle_throwing :: "nat \<Rightarrow> job \<Rightarrow> task \<Rightarrow> state \<Rightarrow> (error + order) \<times> state" where
  "handle_throwing k j (Responded r) s = (r, s)"
| "handle_throwing 0 j t s = (Inl ServerError, s)"
| "handle_throwing (Suc k) j t s = (case step j t s of (t', s') \<Rightarrow> handle_throwing k j t' s')"

text \<open>Requests served one after the other, each to completion.\<close>

fun serve :: "state \<Rightarrow> job list \<Rightarrow> (error + order) list \<times> state" where
  "serve s [] = ([], s)"
| "serve s (j # js) =
     (case handle j s of (r, s') \<Rightarrow> (case serve s' js of (rs, s'') \<Rightarrow> (r # rs, s'')))"

section \<open>Example data\<close>

definition farmerA :: objectId where "farmerA = ''64b7f0a1c2d3e4f5a6b7c8d1''"
definition buyerB :: objectId where "buyerB = ''64b7f0a1c2d3e4f5a6b7c8d2''"
definition productP :: objectId where "productP = ''64b7f0a1c2d3e4f5a6b7c8d3''"
definition order1 :: objectId where "order1 = ''64b7f0a1c2d3e4f5a6b7c8d4''"

definition prodP :: product where
  "prodP = \<lparr>price = 80, quantity = 10, farmer = farmerA, isAvailable = True, isApproved = True,
            isActive = True, rating_average = 0, rating_count = 0\<rparr>"

definition shop0 :: state where
  "shop0 = \<lparr>products = [productP \<mapsto> prodP], orders = [], reviews = []\<rparr>"

definition address0 :: shipping_address where
  "address0 = \<lparr>county = ''Nandi'', subCounty = ''Emgwen'', ward = ''Kapsabet'',
               specificLocation = ''Market gate'', contactPhone = ''0712345678'',
               additionalNotes = None\<rparr>"

text \<open>The request of the specification's scenario: three units of a product priced 80.\<close>

definition request3 :: order_request where
  "request3 = \<lparr>req_items = [\<lparr>productId = productP, req_quantity = 3\<rparr>],
               req_paymentMethod = ''mpesa'', req_shippingAddress = address0,
               req_deliveryNotes = None\<rparr>"

text \<open>A stored order (one with its number), and a store that holds it.\<close>

definition placed3 :: order where
  "placed3 = \<lparr>order_id = order1, orderNumber = ''ORD-000001-001'', buyer = buyerB,
      items = [\<lparr>item_product = productP, item_quantity = 3, item_price = 80,
                item_farmer = farmerA\<rparr>],
      totalAmount = Num 240, paymentMethod = ''mpesa'', shippingAddress = address0,
      deliveryNotes = None, farmerNotes = None, status = Pending,
      paymentStatus = PaymentPending, order_isActive = True\<rparr>"

definition shop3 :: state where
  "shop3 = \<lparr>products = [productP \<mapsto> prodP\<lparr>quantity := 7\<rparr>], orders = [placed3], reviews = []\<rparr>"

text \<open>A request that names one product in two entries.\<close>

definition request_twice :: order_request where
  "request_twice = \<lparr>req_items = [\<lparr>productId = productP, req_quantity = 6\<rparr>,
                                  \<lparr>productId = productP, req_quantity = 6\<rparr>],
               req_paymentMethod = ''cash'', req_shippingAddress = address0,
               req_deliveryNotes = None\<rparr>"

text \<open>A request whose second entry names no product.\<close>

definition request_unknown :: order_request where
  "request_unknown = \<lparr>req_items = [\<lparr>productId = productP, req_quantity = 3\<rparr>,
                                    \<lparr>productId = order1, req_quantity = 1\<rparr>],
               req_paymentMethod = ''cash'', req_shippingAddress = address0,
               req_deliveryNotes = None\<rparr>"

definition outsiderC :: objectId where "outsiderC = ''64b7f0a1c2d3e4f5a6b7c8d5''"

text \<open>An order a farmer placed for a product of their own: buyer and line-item farmer at once.\<close>

definition own_order :: order where
  "own_order = placed3\<lparr>buyer := farmerA, deliveryNotes := Some ''leave at the gate''\<rparr>"

definition shop_own :: state where
  "shop_own = shop3\<lparr>orders := [own_order]\<rparr>"

definition confirm_with_notes :: status_request where
  "confirm_with_notes = \<lparr>req_status = ''confirmed'', req_notes = Some '' ready by noon ''\<rparr>"

definition ship_request :: status_request where
  "ship_request = \<lparr>req_status = ''shipped'', req_notes = None\<rparr>"

text \<open>Notes that are three spaces.\<close>

definition confirm_blank_notes :: status_request where
  "confirm_blank_notes = \<lparr>req_status = ''confirmed'', req_notes = Some ''   ''\<rparr>"

definition review5 :: review where
  "review5 = \<lparr>review_id = ''64b7f0a1c2d3e4f5a6b7c8d6'', review_product = productP,
      review_buyer = buyerB, review_order = order1, rating = 5, comment = Some ''Fresh'',
      isVerified = False, review_isActive = True\<rparr>"

definition review3 :: review where
  "review3 = \<lparr>review_id = ''64b7f0a1c2d3e4f5a6b7c8d7'', review_product = productP,
      review_buyer = outsiderC, review_order = order1, rating = 3, comment = None,
      isVerified = False, review_isActive = True\<rparr>"

text \<open>A second review of the same product by the buyer of \<open>review5\<close>.\<close>

definition review_again :: review where
  "review_again = \<lparr>review_id = ''64b7f0a1c2d3e4f5a6b7c8d8'', review_product = productP,
      review_buyer = buyerB, review_order = order1, rating = 2, comment = None,
      isVerified = False, review_isActive = True\<rparr>"

text \<open>A product with one review, and the aggregate of that review.\<close>

definition shop_reviewed :: state where
  "shop_reviewed =
     \<lparr>products = [productP \<mapsto> prodP\<lparr>rating_average := 5, rating_count := 1\<rparr>],
      orders = [], reviews = [review5]\<rparr>"

text \<open>One unit in stock, and two buyers who each ask for it.\<close>

definition order2 :: objectId where "order2 = ''64b7f0a1c2d3e4f5a6b7c8d9''"

definition shop1 :: state where
  "shop1 = \<lparr>products = [productP \<mapsto> prodP\<lparr>quantity := 1\<rparr>], orders = [], reviews = []\<rparr>"

definition request1 :: order_request where
  "request1 = \<lparr>req_items = [\<lparr>productId = productP, req_quantity = 1\<rparr>],
               req_paymentMethod = ''mpesa'', req_shippingAddress = address0,
               req_deliveryNotes = None\<rparr>"

definition jobB :: job where
  "jobB = \<lparr>job_oid = order1, job_now = 1700000123456, job_rnd = 7, job_user = buyerB,
           job_req = request1\<rparr>"

definition jobC :: job where
  "jobC = \<lparr>job_oid = order2, job_now = 1700000123457, job_rnd = 42, job_user = outsiderC,
           job_req = request1\<rparr>"

definition job3 :: job where
  "job3 = \<lparr>job_oid = order1, job_now = 1700000123456, job_rnd = 7, job_user = buyerB,
           job_req = request3\<rparr>"

definition job_twice :: job where
  "job_twice = \<lparr>job_oid = order2, job_now = 1700000123457, job_rnd = 42, job_user = buyerB,
                job_req = request_twice\<rparr>"

definition job_unknown :: job where
  "job_unknown = \<lparr>job_oid = order2, job_now = 1700000123457, job_rnd = 42, job_user = buyerB,
                  job_req = request_unknown\<rparr>"

section \<open>The order processor\<close>

lemma Order_save_new_Order:
  "Order_save now rnd os (new_Order oid user orderItems amount pm addr notes) = None"
  by (simp add: Order_save_def valid_order_doc_def new_Order_def)

lemma createOrder_outcome:
  "createOrder s oid now rnd user req =
     (if \<not> valid_order_request req then (Inl ValidationFailed, s)
      else case validate_items (products s) (req_items req) [] (Num 0) of
          Inl e \<Rightarrow> (Inl e, s)
        | Inr x \<Rightarrow> (Inl ServerError, s))"
  by (simp add: createOrder_def Order_save_new_Order split: sum.splits prod.splits)

lemma createOrder_state: "snd (createOrder s oid now rnd user req) = s"
  by (simp add: createOrder_outcome split: sum.splits)

lemma createOrder_isl: "isl (fst (createOrder s oid now rnd user req))"
  by (simp add: createOrder_outcome split: sum.splits)

lemma serve_state: "snd (serve s js) = s"
proof (induction js)
  case Nil
  then show ?case by simp
next
  case (Cons j js)
  have "snd (handle j s) = s" by (simp add: handle_def createOrder_state)
  with Cons show ?case
    by (cases "handle j s"; cases "serve s js") simp
qed

lemma serve_isl: "list_all isl (fst (serve s js))"
proof (induction js)
  case Nil
  then show ?case by simp
next
  case (Cons j js)
  have "snd (handle j s) = s" "isl (fst (handle j s))"
    by (simp_all add: handle_def createOrder_state createOrder_isl)
  with Cons show ?case
    by (cases "handle j s"; cases "serve s js") simp
qed

lemma unsaved_start: "unsaved (start j)"
  by (simp add: start_def)

lemma step_unsaved:
  assumes "unsaved t"
  shows "snd (step j t s) = s \<and> unsaved (fst (step j t s))"
proof (cases t)
  case (Checking its orderItems amount)
  then show ?thesis
    by (cases its) (simp_all add: Order_save_new_Order split: sum.splits prod.splits)
next
  case (Decrementing ord ls)
  with assms show ?thesis by simp
next
  case (Responded r)
  with assms show ?thesis by simp
qed

lemma handle_throwing_unsaved:
  "unsaved t \<Longrightarrow> snd (handle_throwing k j t s) = s \<and> isl (fst (handle_throwing k j t s))"
proof (induction k arbitrary: t)
  case 0
  then show ?case by (cases t) simp_all
next
  case (Suc k)
  show ?case
  proof (cases t)
    case (Checking its orderItems amount)
    from step_unsaved[OF Suc.prems, of j s]
    have st: "snd (step j t s) = s" and un: "unsaved (fst (step j t s))" by simp_all
    from Suc.IH[OF un] st show ?thesis
      by (cases "step j t s") (simp add: Checking)
  next
    case (Decrementing ord ls)
    with Suc.prems show ?thesis by simp
  next
    case (Responded r)
    with Suc.prems show ?thesis by simp
  qed
qed

lemma run_unsaved:
  "list_all (\<lambda>jt. unsaved (snd jt)) ts \<Longrightarrow>
     snd (run sched ts s) = s \<and> list_all (\<lambda>jt. unsaved (snd jt)) (fst (run sched ts s))"
proof (induction sched arbitrary: ts)
  case Nil
  then show ?case by simp
next
  case (Cons i sched)
  show ?case
  proof (cases "i < length ts")
    case True
    have u: "unsaved (snd (ts ! i))"
      using Cons.prems True by (simp add: list_all_length)
    from step_unsaved[OF u, of "fst (ts ! i)" s]
    have st: "snd (step (fst (ts ! i)) (snd (ts ! i)) s) = s"
      and un: "unsaved (fst (step (fst (ts ! i)) (snd (ts ! i)) s))" by simp_all
    have "list_all (\<lambda>jt. unsaved (snd jt))
            (ts[i := (fst (ts ! i), fst (step (fst (ts ! i)) (snd (ts ! i)) s))])"
      using Cons.prems un True by (auto simp: list_all_length nth_list_update)
    from Cons.IH[OF this] st True show ?thesis
      by (cases "step (fst (ts ! i)) (snd (ts ! i)) s") simp
  next
    case False
    with Cons show ?thesis by simp
  qed
qed

lemma run_started:
  "snd (run sched (map (\<lambda>j. (j, start j)) js) s) = s \<and>
   list_all (\<lambda>jt. unsaved (snd jt)) (fst (run sched (map (\<lambda>j. (j, start j)) js) s))"
  by (rule run_unsaved) (simp add: list_all_iff unsaved_start)

text \<open>
  The handler taken step by step, with steps enough for its awaits, is \<open>createOrder\<close>.
\<close>

lemma handle_throwing_Checking:
  "length its < k \<Longrightarrow>
     handle_throwing k j (Checking its orderItems amount) s =
       (case validate_items (products s) its orderItems amount of
          Inl e \<Rightarrow> (Inl e, s)
        | Inr x \<Rightarrow> (Inl ServerError, s))"
proof (induction its arbitrary: k orderItems amount)
  case Nil
  then obtain k' where "k = Suc k'" by (cases k) simp_all
  then show ?case by (simp add: Order_save_new_Order)
next
  case (Cons it its)
  then obtain k' where k: "k = Suc k'" and l: "length its < k'" by (cases k) simp_all
  show ?case
  proof (cases "check_item (products s) it")
    case (Inl e)
    then show ?thesis by (simp add: k)
  next
    case (Inr x)
    then show ?thesis
      using Cons.IH[OF l] by (cases x) (simp add: k)
  qed
qed

lemma handle_steps:
  "length (req_items (job_req j)) < k \<Longrightarrow> handle_throwing k j (start j) s = handle j s"
  by (simp add: start_def handle_def createOrder_outcome handle_throwing_Checking)

text \<open>The numbers of the examples.\<close>

lemmas fl_defs = fl_def binary_exponent_def round_half_even_def bitlen_def compute_floorlog Let_def

lemma fl_examples:
  "fl 1 = Num 1" "fl 3 = Num 3" "fl 6 = Num 6" "fl 240 = Num 240" "fl 480 = Num 480"
  "fl 960 = Num 960" "fl 80 = Num 80"
  by (simp_all add: fl_defs)

lemmas id_defs = cast_ObjectId_def is_hex_def lower_hex_def isMongoId_def isHexadecimal_def

lemmas order_example_defs = farmerA_def buyerB_def productP_def order1_def order2_def prodP_def
  shop0_def shop1_def address0_def request3_def request1_def request_twice_def
  request_unknown_def outsiderC_def

lemma valid_examples:
  "valid_order_request request3" "valid_order_request request1"
  "valid_order_request request_twice" "valid_order_request request_unknown"
  by (simp_all add: valid_order_request_def order_example_defs id_defs trim_def is_space_def
      valid_phone_def is_digit_def)


text \<open>
  What the \<open>pre('save')\<close> hook makes of the document of this request, were it to run.
\<close>

lemma decimal_examples: "decimal 1700000123456 = ''1700000123456''" "decimal 7 = ''7''"
  by (simp_all add: decimal.simps)

lemma pre_save_request3:
  "orderNumber (pre_save 1700000123456 7
      (new_Order order1 buyerB
         [\<lparr>item_product = productP, item_quantity = 3, item_price = 80, item_farmer = farmerA\<rparr>]
         (Num 240) ''mpesa'' address0 None)) = ''ORD-123456-007''"
  by (simp add: pre_save_def new_Order_def decimal_examples numeral_2_eq_2)



text \<open>
  C2. Whatever the request and however it ends (refused by the validator chain, refused
  for an unavailable product or for insufficient stock, or answered with status 500),
  \<open>createOrder\<close> fails and leaves the state as it was: no order is persisted and no
  quantity is decremented. The same holds when, after any number of awaited store
  calls, the next one throws.
\<close>

theorem createOrder_all_or_nothing:
  "(createOrder s oid now rnd user req = (res, s') \<longrightarrow> s' = s \<and> (\<exists>e. res = Inl e)) \<and>
   (handle_throwing k j (start j) s = (res2, s2) \<longrightarrow> s2 = s \<and> (\<exists>e. res2 = Inl e))"
proof (intro conjI impI)
  assume a: "createOrder s oid now rnd user req = (res, s')"
  from createOrder_state[of s oid now rnd user req] a show "s' = s" by simp
  from createOrder_isl[of s oid now rnd user req] a show "\<exists>e. res = Inl e"
    by (cases res) simp_all
next
  assume a: "handle_throwing k j (start j) s = (res2, s2)"
  from handle_throwing_unsaved[OF unsaved_start, of k j j s] a
  show "s2 = s" by simp
  from handle_throwing_unsaved[OF unsaved_start, of k j j s] a
  show "\<exists>e. res2 = Inl e" by (cases res2) simp_all
qed

lemma createOrder_request_unknown:
  "createOrder shop0 order2 1700000123457 42 buyerB request_unknown =
     (Inl (ProductUnavailable order1), shop0)"
  by (simp add: createOrder_outcome valid_examples)
     (simp add: check_item_def order_example_defs id_defs fl_examples)

lemma handle_throwing_job3:
  "handle_throwing 1 job3 (start job3) shop0 = (Inl ServerError, shop0)"
  by (simp add: start_def job3_def valid_examples)
     (simp add: check_item_def order_example_defs id_defs fl_examples Order_save_new_Order)

theorem createOrder_all_or_nothing_witness:
  "createOrder shop0 order2 1700000123457 42 buyerB request_unknown =
     (Inl (ProductUnavailable order1), shop0) \<and>
   handle_throwing 1 job3 (start job3) shop0 = (Inl ServerError, shop0)"
  using createOrder_all_or_nothing[of shop0 order2 1700000123457 42 buyerB request_unknown
      "Inl (ProductUnavailable order1)" shop0 1 job3 "Inl ServerError" shop0]
    createOrder_request_unknown handle_throwing_job3
  by simp

text \<open>
  C3. From a state in which no product has a negative quantity, requests served one
  after the other, and requests whose handlers take turns at their awaits, leave a state
  in which no product has a negative quantity, whatever the requests, those that name
  one product in several entries included.
\<close>

theorem createOrder_keeps_stock_nonneg:
  assumes "stock_nonneg s"
  shows "stock_nonneg (snd (serve s js)) \<and>
         stock_nonneg (snd (run sched (map (\<lambda>j. (j, start j)) js) s))"
  using assms by (simp add: serve_state run_started)

lemma serve_examples:
  "serve shop0 [job_twice, job3] = ([Inl ServerError, Inl ServerError], shop0)"
  by (simp add: handle_def createOrder_outcome job_twice_def job3_def valid_examples)
     (simp add: check_item_def order_example_defs id_defs fl_examples)

theorem createOrder_keeps_stock_nonneg_witness:
  "stock_nonneg shop0 \<and>
   serve shop0 [job_twice, job3] = ([Inl ServerError, Inl ServerError], shop0) \<and>
   stock_nonneg (snd (serve shop0 [job_twice, job3]))"
proof -
  have a: "stock_nonneg shop0"
    by (simp add: stock_nonneg_def shop0_def prodP_def)
  from createOrder_keeps_stock_nonneg[OF a, of "[job_twice, job3]"] a serve_examples
  show ?thesis by simp
qed

section \<open>The order state machine\<close>

lemma parse_status_name: "parse_status (status_name st) = Some st"
  by (cases st) (simp_all add: parse_status_def)

lemma member_validTransitions:
  "b \<in> set (validTransitions a) \<longleftrightarrow>
     (a, b) \<in> {(Pending, Confirmed), (Pending, Cancelled), (Confirmed, Processing),
               (Confirmed, Cancelled), (Processing, Shipped), (Processing, Cancelled),
               (Shipped, Delivered)}"
  by (cases a; cases b) simp_all

lemma list_ex_farmer: "list_ex (\<lambda>item. item_farmer item = user) ls \<longleftrightarrow> user \<in> item_farmer ` set ls"
  by (auto simp: list_ex_iff)

lemma attach_notes_id: "order_id (attach_notes ord notes f) = order_id ord"
  by (simp add: attach_notes_def split: option.splits)

lemma attach_notes_status: "status (attach_notes ord notes f) = status ord"
  by (simp add: attach_notes_def split: option.splits)

lemma findById_order_id: "findById_order os oid = Some ord \<Longrightarrow> order_id ord = oid"
  by (auto simp: findById_order_def find_Some_iff)

lemma findById_save_order:
  "findById_order os oid = Some ord \<Longrightarrow> order_id ord' = oid \<Longrightarrow>
     findById_order (save_order os ord') oid = Some ord'"
  by (induction os) (auto simp: findById_order_def save_order_def split: if_splits)

lemma updateStatus_Inr:
  assumes "updateStatus s oid user req = (Inr ord', s')"
  shows "\<exists>ord new. valid_status_request req \<and> parse_status (req_status req) = Some new \<and>
           findById_order (orders s) oid = Some ord \<and> order_isActive ord \<and>
           (buyer ord = user \<or> user \<in> item_farmer ` set (items ord)) \<and>
           new \<in> set (validTransitions (status ord)) \<and>
           ord' = attach_notes (ord\<lparr>status := new\<rparr>) (map_option trim (req_notes req))
                    (user \<in> item_farmer ` set (items ord)) \<and>
           s' = s\<lparr>orders := save_order (orders s) ord'\<rparr>"
  using assms
  by (auto simp: updateStatus_def Let_def list_ex_farmer split: if_splits option.splits)

lemma updateStatus_authorised:
  assumes "valid_status_request req" and "parse_status (req_status req) = Some new"
    and "findById_order (orders s) oid = Some ord" and "order_isActive ord"
    and "buyer ord = user \<or> user \<in> item_farmer ` set (items ord)"
  shows "updateStatus s oid user req =
          (if new \<in> set (validTransitions (status ord))
           then (Inr (attach_notes (ord\<lparr>status := new\<rparr>) (map_option trim (req_notes req))
                        (user \<in> item_farmer ` set (items ord))),
                 s\<lparr>orders := save_order (orders s)
                     (attach_notes (ord\<lparr>status := new\<rparr>) (map_option trim (req_notes req))
                        (user \<in> item_farmer ` set (items ord)))\<rparr>)
           else (Inl (InvalidTransition (status ord) new), s))"
  using assms
  by (auto simp: updateStatus_def Let_def list_ex_farmer)

text \<open>
  C5. A status update that succeeds moves the order along an edge of the table
  pending to confirmed or cancelled, confirmed to processing or cancelled, processing
  to shipped or cancelled, shipped to delivered, and stores the order with the
  requested status. For a well-formed request on a stored, active order by its buyer
  or one of its farmers, the update succeeds exactly along these edges and every other
  request is refused as an invalid transition, the state unchanged. Whoever asks, no
  update of a delivered or cancelled order succeeds.
\<close>

theorem updateStatus_transition_table:
  "(updateStatus s oid user req = (Inr ord', s') \<longrightarrow>
      (\<exists>ord. findById_order (orders s) oid = Some ord \<and>
         (status ord, status ord') \<in>
            {(Pending, Confirmed), (Pending, Cancelled), (Confirmed, Processing),
             (Confirmed, Cancelled), (Processing, Shipped), (Processing, Cancelled),
             (Shipped, Delivered)} \<and>
         parse_status (req_status req) = Some (status ord') \<and>
         findById_order (orders s') oid = Some ord')) \<and>
   (valid_status_request req \<and> parse_status (req_status req) = Some new \<and>
    findById_order (orders s) oid = Some ord \<and> order_isActive ord \<and>
    (buyer ord = user \<or> user \<in> item_farmer ` set (items ord)) \<longrightarrow>
      (if (status ord, new) \<in>
            {(Pending, Confirmed), (Pending, Cancelled), (Confirmed, Processing),
             (Confirmed, Cancelled), (Processing, Shipped), (Processing, Cancelled),
             (Shipped, Delivered)}
       then \<exists>ord'. updateStatus s oid user req =
                     (Inr ord', s\<lparr>orders := save_order (orders s) ord'\<rparr>) \<and>
                   status ord' = new
       else updateStatus s oid user req = (Inl (InvalidTransition (status ord) new), s))) \<and>
   (findById_order (orders s) oid = Some ord \<and> (status ord = Delivered \<or> status ord = Cancelled) \<longrightarrow>
      (\<exists>e. updateStatus s oid user req = (Inl e, s)))"
proof (intro conjI impI)
  assume a: "updateStatus s oid user req = (Inr ord', s')"
  from updateStatus_Inr[OF a] obtain ord new where
    h: "parse_status (req_status req) = Some new" "findById_order (orders s) oid = Some ord"
       "new \<in> set (validTransitions (status ord))"
       "ord' = attach_notes (ord\<lparr>status := new\<rparr>) (map_option trim (req_notes req))
                    (user \<in> item_farmer ` set (items ord))"
       "s' = s\<lparr>orders := save_order (orders s) ord'\<rparr>"
    by blast
  have st: "status ord' = new" by (simp add: h(4) attach_notes_status)
  have id: "order_id ord' = oid"
    using findById_order_id[OF h(2)] by (simp add: h(4) attach_notes_id)
  have fnd: "findById_order (orders s') oid = Some ord'"
    using findById_save_order[OF h(2) id] by (simp add: h(5))
  have tab: "(status ord, status ord') \<in>
            {(Pending, Confirmed), (Pending, Cancelled), (Confirmed, Processing),
             (Confirmed, Cancelled), (Processing, Shipped), (Processing, Cancelled),
             (Shipped, Delivered)}"
    using h(3) by (simp only: st member_validTransitions)
  have ps: "parse_status (req_status req) = Some (status ord')"
    using h(1) by (simp only: st)
  from h(2) tab ps fnd show "\<exists>ord. findById_order (orders s) oid = Some ord \<and>
         (status ord, status ord') \<in>
            {(Pending, Confirmed), (Pending, Cancelled), (Confirmed, Processing),
             (Confirmed, Cancelled), (Processing, Shipped), (Processing, Cancelled),
             (Shipped, Delivered)} \<and>
         parse_status (req_status req) = Some (status ord') \<and>
         findById_order (orders s') oid = Some ord'"
    by blast
next
  assume a: "valid_status_request req \<and> parse_status (req_status req) = Some new \<and>
    findById_order (orders s) oid = Some ord \<and> order_isActive ord \<and>
    (buyer ord = user \<or> user \<in> item_farmer ` set (items ord))"
  then have u: "updateStatus s oid user req =
          (if new \<in> set (validTransitions (status ord))
           then (Inr (attach_notes (ord\<lparr>status := new\<rparr>) (map_option trim (req_notes req))
                        (user \<in> item_farmer ` set (items ord))),
                 s\<lparr>orders := save_order (orders s)
                     (attach_notes (ord\<lparr>status := new\<rparr>) (map_option trim (req_notes req))
                        (user \<in> item_farmer ` set (items ord)))\<rparr>)
           else (Inl (InvalidTransition (status ord) new), s))"
    by (intro updateStatus_authorised) simp_all
  show "if (status ord, new) \<in>
            {(Pending, Confirmed), (Pending, Cancelled), (Confirmed, Processing),
             (Confirmed, Cancelled), (Processing, Shipped), (Processing, Cancelled),
             (Shipped, Delivered)}
       then \<exists>ord'. updateStatus s oid user req =
                     (Inr ord', s\<lparr>orders := save_order (orders s) ord'\<rparr>) \<and>
                   status ord' = new
       else updateStatus s oid user req = (Inl (InvalidTransition (status ord) new), s)"
  proof (cases "new \<in> set (validTransitions (status ord))")
    case True
    then have "\<exists>ord'. updateStatus s oid user req =
                     (Inr ord', s\<lparr>orders := save_order (orders s) ord'\<rparr>) \<and>
                   status ord' = new"
      using u by (simp add: attach_notes_status)
    with True show ?thesis by (simp only: member_validTransitions[symmetric] if_True)
  next
    case False
    then have "updateStatus s oid user req = (Inl (InvalidTransition (status ord) new), s)"
      using u by simp
    with False show ?thesis by (simp only: member_validTransitions[symmetric] if_False)
  qed
next
  assume a: "findById_order (orders s) oid = Some ord \<and> (status ord = Delivered \<or> status ord = Cancelled)"
  then show "\<exists>e. updateStatus s oid user req = (Inl e, s)"
    by (auto simp: updateStatus_def Let_def split: option.splits)
qed

lemma updateStatus_outsider:
  assumes "findById_order (orders s) oid = Some ord" and "order_isActive ord"
    and "buyer ord \<noteq> user" and "user \<notin> item_farmer ` set (items ord)"
  shows "updateStatus s oid user req =
           (if valid_status_request req then (Inl Forbidden, s) else (Inl ValidationFailed, s))"
  using assms
  by (auto simp: updateStatus_def valid_status_request_def Let_def list_ex_farmer
           split: option.splits)

text \<open>
  C6. On a stored, active order, an actor who is neither the buyer nor the farmer of a
  line item gets \<open>Forbidden\<close> for every well-formed request, in particular for each of
  the six statuses with no notes or with notes of at most 500 characters after trimming;
  no request of such an actor succeeds, and the state (so every field of the order)
  stays as it was.
\<close>

theorem updateStatus_third_party_forbidden:
  assumes "findById_order (orders s) oid = Some ord" and "order_isActive ord"
    and "buyer ord \<noteq> user" and "user \<notin> item_farmer ` set (items ord)"
  shows "(valid_status_request req \<longrightarrow> updateStatus s oid user req = (Inl Forbidden, s)) \<and>
         (\<forall>new. updateStatus s oid user \<lparr>req_status = status_name new, req_notes = None\<rparr> =
                  (Inl Forbidden, s)) \<and>
         (\<forall>new notes. length (trim notes) \<le> 500 \<longrightarrow>
            updateStatus s oid user \<lparr>req_status = status_name new, req_notes = Some notes\<rparr> =
              (Inl Forbidden, s)) \<and>
         (\<exists>e. updateStatus s oid user req = (Inl e, s))"
  by (simp add: updateStatus_outsider[OF assms] valid_status_request_def parse_status_name)

text \<open>
  C10, amended. In a successful status update, with \<open>n\<close> the notes of the request
  without the white space at their two ends (the validator trims them before the
  handler reads them): when the notes are absent or \<open>n\<close> is empty, \<open>farmerNotes\<close> and
  \<open>deliveryNotes\<close> stay as they were; otherwise \<open>n\<close> goes to \<open>farmerNotes\<close> when the
  actor is the farmer of a line item (also when the actor is the buyer as well) and
  \<open>deliveryNotes\<close> is untouched, and to \<open>deliveryNotes\<close> when not, \<open>farmerNotes\<close>
  untouched. The order returned is the order stored.
\<close>

theorem updateStatus_notes_field:
  assumes "updateStatus s oid user req = (Inr ord', s')"
    and "findById_order (orders s) oid = Some ord"
  shows "(case map_option trim (req_notes req) of
            None \<Rightarrow> farmerNotes ord' = farmerNotes ord \<and> deliveryNotes ord' = deliveryNotes ord
          | Some n \<Rightarrow>
              if n = [] then farmerNotes ord' = farmerNotes ord \<and> deliveryNotes ord' = deliveryNotes ord
              else if user \<in> item_farmer ` set (items ord)
              then farmerNotes ord' = Some n \<and> deliveryNotes ord' = deliveryNotes ord
              else deliveryNotes ord' = Some n \<and> farmerNotes ord' = farmerNotes ord) \<and>
         findById_order (orders s') oid = Some ord'"
proof -
  from updateStatus_Inr[OF assms(1)] assms(2) obtain new where
    h: "ord' = attach_notes (ord\<lparr>status := new\<rparr>) (map_option trim (req_notes req))
                    (user \<in> item_farmer ` set (items ord))"
       "s' = s\<lparr>orders := save_order (orders s) ord'\<rparr>"
    by auto
  have id: "order_id ord' = oid"
    using findById_order_id[OF assms(2)] by (simp add: h(1) attach_notes_id)
  have "findById_order (orders s') oid = Some ord'"
    using findById_save_order[OF assms(2) id] by (simp add: h(2))
  moreover have "(case map_option trim (req_notes req) of
            None \<Rightarrow> farmerNotes ord' = farmerNotes ord \<and> deliveryNotes ord' = deliveryNotes ord
          | Some n \<Rightarrow>
              if n = [] then farmerNotes ord' = farmerNotes ord \<and> deliveryNotes ord' = deliveryNotes ord
              else if user \<in> item_farmer ` set (items ord)
              then farmerNotes ord' = Some n \<and> deliveryNotes ord' = deliveryNotes ord
              else deliveryNotes ord' = Some n \<and> farmerNotes ord' = farmerNotes ord)"
    by (simp add: h(1) attach_notes_def split: option.splits)
  ultimately show ?thesis by simp
qed

lemma find_own_order: "findById_order (orders shop_own) order1 = Some own_order"
  by (simp add: findById_order_def shop_own_def own_order_def placed3_def)

lemma valid_confirm_with_notes: "valid_status_request confirm_with_notes"
  by (simp add: valid_status_request_def confirm_with_notes_def parse_status_def trim_def is_space_def)

lemma valid_ship_request: "valid_status_request ship_request"
  by (simp add: valid_status_request_def ship_request_def parse_status_def)

lemma own_order_facts:
  "order_isActive own_order" "buyer own_order = farmerA" "status own_order = Pending"
  "items own_order = [\<lparr>item_product = productP, item_quantity = 3, item_price = 80,
                       item_farmer = farmerA\<rparr>]"
  "order_id own_order = order1"
  by (simp_all add: own_order_def placed3_def)

lemma confirm_with_notes_facts:
  "parse_status (req_status confirm_with_notes) = Some Confirmed"
  "map_option trim (req_notes confirm_with_notes) = Some ''ready by noon''"
  by (simp_all add: confirm_with_notes_def parse_status_def trim_def is_space_def)

lemma updateStatus_own_order:
  "updateStatus shop_own order1 farmerA confirm_with_notes =
     (Inr (own_order\<lparr>status := Confirmed, farmerNotes := Some ''ready by noon''\<rparr>),
      shop_own\<lparr>orders := [own_order\<lparr>status := Confirmed, farmerNotes := Some ''ready by noon''\<rparr>]\<rparr>)"
proof -
  have "updateStatus shop_own order1 farmerA confirm_with_notes =
          (if Confirmed \<in> set (validTransitions (status own_order))
           then (Inr (attach_notes (own_order\<lparr>status := Confirmed\<rparr>)
                        (map_option trim (req_notes confirm_with_notes))
                        (farmerA \<in> item_farmer ` set (items own_order))),
                 shop_own\<lparr>orders := save_order (orders shop_own)
                     (attach_notes (own_order\<lparr>status := Confirmed\<rparr>)
                        (map_option trim (req_notes confirm_with_notes))
                        (farmerA \<in> item_farmer ` set (items own_order)))\<rparr>)
           else (Inl (InvalidTransition (status own_order) Confirmed), shop_own))"
    by (rule updateStatus_authorised)
       (simp_all add: valid_confirm_with_notes find_own_order own_order_facts
          confirm_with_notes_facts)
  then show ?thesis
    by (simp add: own_order_facts confirm_with_notes_facts attach_notes_def save_order_def
        shop_own_def)
qed

theorem updateStatus_transition_table_witness:
  "updateStatus shop_own order1 farmerA confirm_with_notes =
     (Inr (own_order\<lparr>status := Confirmed, farmerNotes := Some ''ready by noon''\<rparr>),
      shop_own\<lparr>orders := [own_order\<lparr>status := Confirmed, farmerNotes := Some ''ready by noon''\<rparr>]\<rparr>) \<and>
   status own_order = Pending \<and>
   updateStatus shop_own order1 farmerA ship_request =
     (Inl (InvalidTransition Pending Shipped), shop_own)"
proof -
  have a: "valid_status_request ship_request \<and> parse_status (req_status ship_request) = Some Shipped \<and>
    findById_order (orders shop_own) order1 = Some own_order \<and> order_isActive own_order \<and>
    (buyer own_order = farmerA \<or> farmerA \<in> item_farmer ` set (items own_order))"
    by (simp add: valid_ship_request find_own_order)
       (simp add: ship_request_def parse_status_def own_order_def placed3_def)
  have st: "status own_order = Pending" by (simp add: own_order_def placed3_def)
  have "updateStatus shop_own order1 farmerA ship_request =
     (Inl (InvalidTransition (status own_order) Shipped), shop_own)"
    using updateStatus_transition_table[of shop_own order1 farmerA ship_request _ _ Shipped own_order] a
    by (simp add: st)
  then show ?thesis using updateStatus_own_order st by simp
qed

theorem updateStatus_third_party_forbidden_witness:
  "findById_order (orders shop_own) order1 = Some own_order \<and> order_isActive own_order \<and>
   buyer own_order \<noteq> outsiderC \<and> outsiderC \<notin> item_farmer ` set (items own_order) \<and>
   updateStatus shop_own order1 outsiderC confirm_with_notes = (Inl Forbidden, shop_own)"
proof -
  have a: "order_isActive own_order" "buyer own_order \<noteq> outsiderC"
    "outsiderC \<notin> item_farmer ` set (items own_order)"
    by (simp_all add: own_order_def placed3_def outsiderC_def farmerA_def)
  from updateStatus_third_party_forbidden[OF find_own_order a, of confirm_with_notes]
    valid_confirm_with_notes a find_own_order
  show ?thesis by simp
qed

theorem updateStatus_notes_field_witness:
  "updateStatus shop_own order1 farmerA confirm_with_notes =
     (Inr (own_order\<lparr>status := Confirmed, farmerNotes := Some ''ready by noon''\<rparr>),
      shop_own\<lparr>orders := [own_order\<lparr>status := Confirmed, farmerNotes := Some ''ready by noon''\<rparr>]\<rparr>) \<and>
   buyer own_order = farmerA \<and> farmerA \<in> item_farmer ` set (items own_order) \<and>
   deliveryNotes (own_order\<lparr>status := Confirmed, farmerNotes := Some ''ready by noon''\<rparr>) =
     deliveryNotes own_order \<and>
   findById_order
     (orders (shop_own\<lparr>orders := [own_order\<lparr>status := Confirmed, farmerNotes := Some ''ready by noon''\<rparr>]\<rparr>))
     order1 = Some (own_order\<lparr>status := Confirmed, farmerNotes := Some ''ready by noon''\<rparr>)"
proof -
  have "findById_order
     (orders (shop_own\<lparr>orders := [own_order\<lparr>status := Confirmed, farmerNotes := Some ''ready by noon''\<rparr>]\<rparr>))
     order1 = Some (own_order\<lparr>status := Confirmed, farmerNotes := Some ''ready by noon''\<rparr>)"
    using updateStatus_notes_field[OF updateStatus_own_order find_own_order] by blast
  moreover have "buyer own_order = farmerA \<and> farmerA \<in> item_farmer ` set (items own_order)"
    by (simp add: own_order_def placed3_def)
  ultimately show ?thesis using updateStatus_own_order by simp
qed

text \<open>
  C10 as stated fails for notes that are not empty and hold white space only: the
  validator trims them to the empty string, which the handler's \<open>if (notes)\<close> skips, so
  the notes of a line-item farmer are written to neither field.
\<close>

theorem updateStatus_blank_notes_counterexample:
  "req_notes confirm_blank_notes = Some ''   '' \<and>
   farmerA \<in> item_farmer ` set (items own_order) \<and>
   farmerNotes own_order = None \<and>
   updateStatus shop_own order1 farmerA confirm_blank_notes =
     (Inr (own_order\<lparr>status := Confirmed\<rparr>),
      shop_own\<lparr>orders := [own_order\<lparr>status := Confirmed\<rparr>]\<rparr>) \<and>
   farmerNotes (own_order\<lparr>status := Confirmed\<rparr>) = None \<and>
   deliveryNotes (own_order\<lparr>status := Confirmed\<rparr>) = Some ''leave at the gate''"
proof -
  have v: "valid_status_request confirm_blank_notes"
    by (simp add: valid_status_request_def confirm_blank_notes_def parse_status_def trim_def
        is_space_def)
  have f: "parse_status (req_status confirm_blank_notes) = Some Confirmed"
    "map_option trim (req_notes confirm_blank_notes) = Some []"
    by (simp_all add: confirm_blank_notes_def parse_status_def trim_def is_space_def)
  have "updateStatus shop_own order1 farmerA confirm_blank_notes =
          (if Confirmed \<in> set (validTransitions (status own_order))
           then (Inr (attach_notes (own_order\<lparr>status := Confirmed\<rparr>)
                        (map_option trim (req_notes confirm_blank_notes))
                        (farmerA \<in> item_farmer ` set (items own_order))),
                 shop_own\<lparr>orders := save_order (orders shop_own)
                     (attach_notes (own_order\<lparr>status := Confirmed\<rparr>)
                        (map_option trim (req_notes confirm_blank_notes))
                        (farmerA \<in> item_farmer ` set (items own_order)))\<rparr>)
           else (Inl (InvalidTransition (status own_order) Confirmed), shop_own))"
    by (rule updateStatus_authorised) (simp_all add: v f find_own_order own_order_facts)
  then have "updateStatus shop_own order1 farmerA confirm_blank_notes =
     (Inr (own_order\<lparr>status := Confirmed\<rparr>),
      shop_own\<lparr>orders := [own_order\<lparr>status := Confirmed\<rparr>]\<rparr>)"
    by (simp add: own_order_facts f attach_notes_def save_order_def shop_own_def)
  moreover have "req_notes confirm_blank_notes = Some ''   ''"
    by (simp add: confirm_blank_notes_def)
  moreover have "farmerNotes own_order = None"
    "deliveryNotes own_order = Some ''leave at the gate''"
    by (simp_all add: own_order_def placed3_def)
  ultimately show ?thesis by (simp add: own_order_facts)
qed

section \<open>The rating aggregator\<close>

lemma Product_save_rating_reviews:
  "Product_save_rating s pid p average n = Some s' \<Longrightarrow> reviews s' = reviews s"
  by (auto simp: Product_save_rating_def split: jsnum.splits if_splits)

lemma reviews_post_save: "post_save s this = Some s' \<Longrightarrow> reviews s' = reviews s"
  by (auto simp: post_save_def Let_def Product_save_rating_reviews split: option.splits)

lemma post_findOneAndDelete_query: "post_findOneAndDelete s None = Some s"
  by (simp add: post_findOneAndDelete_def)

lemma round1_no_reviews: "round1 (averageRating []) = NaN"
  by (simp add: round1_def averageRating_def totalRating_def)

lemma post_save_no_active_review:
  assumes "products s (review_product this) = Some p"
    and "active_reviews (reviews s) (review_product this) = []"
  shows "post_save s this = None"
  using assms by (simp add: post_save_def round1_no_reviews Product_save_rating_def)

lemma post_save_count:
  assumes "post_save s this = Some s'" and "products s (review_product this) = Some p"
  shows "\<exists>a. products s' (review_product this) =
               Some (p\<lparr>rating_average := a,
                       rating_count := length (active_reviews (reviews s) (review_product this))\<rparr>)"
  using assms
  by (auto simp: post_save_def Let_def Product_save_rating_def split: jsnum.splits if_splits)

lemma submitReview_Inr:
  assumes "submitReview s r = (Inr r', s')"
  shows "r' = r\<lparr>comment := map_option trim (comment r)\<rparr> \<and> valid_review r' \<and>
         \<not> duplicate_key (reviews s) r' \<and>
         post_save (s\<lparr>reviews := reviews s @ [r']\<rparr>) r' = Some s'"
  using assms by (auto simp: submitReview_def Let_def split: if_splits option.splits)

lemma active_reviews_append:
  "active_reviews (rs @ [r]) pid =
     active_reviews rs pid @ (if review_product r = pid \<and> review_isActive r then [r] else [])"
  by (simp add: active_reviews_def)

lemma duplicate_key_iff:
  "duplicate_key rs r \<longleftrightarrow>
     (\<exists>r'\<in>set rs. review_product r' = review_product r \<and> review_buyer r' = review_buyer r)"
  by (simp add: duplicate_key_def list_ex_iff)

lemma submitReview_reviews:
  "reviews (snd (submitReview s r)) = reviews s \<or>
   (\<not> duplicate_key (reviews s) r \<and>
    reviews (snd (submitReview s r)) = reviews s @ [r\<lparr>comment := map_option trim (comment r)\<rparr>])"
  by (auto simp: submitReview_def Let_def duplicate_key_def dest: reviews_post_save
           split: option.splits)

lemma unique_reviews_append:
  "unique_reviews rs \<Longrightarrow> \<not> duplicate_key rs r \<Longrightarrow> review_product r' = review_product r \<Longrightarrow>
     review_buyer r' = review_buyer r \<Longrightarrow> unique_reviews (rs @ [r'])"
  by (auto simp: unique_reviews_def duplicate_key_iff)

lemma softDelete_keys:
  "map (\<lambda>r. (review_product r, review_buyer r))
     (map (\<lambda>x. if review_id x = rid then x\<lparr>review_isActive := False\<rparr> else x) rs) =
   map (\<lambda>r. (review_product r, review_buyer r)) rs"
  by (induction rs) auto

lemma reviews_softDeleteReview:
  "map (\<lambda>r. (review_product r, review_buyer r)) (reviews (softDeleteReview s rid)) =
   map (\<lambda>r. (review_product r, review_buyer r)) (reviews s)"
  by (auto simp: softDeleteReview_def Let_def softDelete_keys dest: reviews_post_save
           split: option.splits)

lemma deleteReview_found:
  "find (\<lambda>r. review_id r = rid) (reviews s) = Some r \<Longrightarrow>
     deleteReview s rid = s\<lparr>reviews := filter (\<lambda>x. review_id x \<noteq> rid) (reviews s)\<rparr>"
  by (simp add: deleteReview_def post_findOneAndDelete_query)

lemma products_deleteReview: "products (deleteReview s rid) = products s"
  by (simp add: deleteReview_def post_findOneAndDelete_query split: option.splits)

lemma reviews_deleteReview:
  "reviews (deleteReview s rid) = reviews s \<or>
   reviews (deleteReview s rid) = filter (\<lambda>x. review_id x \<noteq> rid) (reviews s)"
  by (simp add: deleteReview_def post_findOneAndDelete_query split: option.splits)

lemmas review_example_defs = review5_def review3_def review_again_def shop_reviewed_def
  productP_def buyerB_def outsiderC_def order1_def prodP_def farmerA_def

lemma math_round_of_int: "math_round (Num (of_int n)) = Num (of_int n)"
proof -
  have "\<lfloor>(of_int n :: rat) + 1 / 2\<rfloor> = n"
    by (rule floor_unique) simp_all
  then show ?thesis by simp
qed

lemma math_round_numeral: "math_round (Num (numeral k)) = Num (numeral k)"
  using math_round_of_int[of "numeral k"] by simp

lemma fl_review_examples:
  "fl 5 = Num 5" "fl 8 = Num 8" "fl 4 = Num 4" "fl 40 = Num 40"
  by (simp_all add: fl_defs)

text \<open>
  C7, at an input where the code does not do what the claim says. When the review
  removed was the product's only active one, the product is left with no active review
  and with the aggregate it had. On a soft delete the \<open>post('save')\<close> hook, which has no
  guard for an empty set of active reviews, divides a zero sum by a zero length and
  assigns \<open>NaN\<close>; \<open>product.save()\<close> rejects it, so the hook throws and nothing of the
  product is written. On a physical delete the \<open>post('findOneAndDelete')\<close> hook runs on
  the query, finds no product and writes nothing.
\<close>

theorem softDelete_only_active_review_stale:
  assumes "find (\<lambda>x. review_id x = rid) (reviews s) = Some r"
    and "valid_review r"
    and "products s (review_product r) = Some p"
    and "\<forall>x\<in>set (reviews s). review_product x = review_product r \<and> review_isActive x \<longrightarrow>
            review_id x = rid"
  shows "post_save
           (s\<lparr>reviews := map (\<lambda>x. if review_id x = rid then x\<lparr>review_isActive := False\<rparr> else x)
                             (reviews s)\<rparr>)
           (r\<lparr>review_isActive := False\<rparr>) = None \<and>
         products (softDeleteReview s rid) = products s \<and>
         active_reviews (reviews (softDeleteReview s rid)) (review_product r) = [] \<and>
         products (deleteReview s rid) = products s \<and>
         active_reviews (reviews (deleteReview s rid)) (review_product r) = []"
proof -
  let ?r' = "r\<lparr>review_isActive := False\<rparr>"
  let ?rs = "map (\<lambda>x. if review_id x = rid then x\<lparr>review_isActive := False\<rparr> else x) (reviews s)"
  have none: "active_reviews ?rs (review_product r) = []"
    using assms(4) by (auto simp: active_reviews_def filter_empty_conv)
  have ps: "post_save (s\<lparr>reviews := ?rs\<rparr>) ?r' = None"
    by (rule post_save_no_active_review[where p = p]) (simp_all add: assms(3) none)
  have sd: "softDeleteReview s rid = s\<lparr>reviews := ?rs\<rparr>"
    using assms(1,2) ps by (simp add: softDeleteReview_def Let_def)
  have dl: "deleteReview s rid = s\<lparr>reviews := filter (\<lambda>x. review_id x \<noteq> rid) (reviews s)\<rparr>"
    by (rule deleteReview_found[OF assms(1)])
  have none': "active_reviews (filter (\<lambda>x. review_id x \<noteq> rid) (reviews s)) (review_product r) = []"
    using assms(4) by (auto simp: active_reviews_def filter_empty_conv)
  from ps none none' show ?thesis by (simp add: sd dl)
qed

theorem softDelete_only_active_review_stale_witness:
  "aggregate_of shop_reviewed productP = Some (5, 1) \<and>
   aggregate_of (softDeleteReview shop_reviewed (review_id review5)) productP = Some (5, 1) \<and>
   active_reviews (reviews (softDeleteReview shop_reviewed (review_id review5))) productP = [] \<and>
   aggregate_of (deleteReview shop_reviewed (review_id review5)) productP = Some (5, 1) \<and>
   reviews (deleteReview shop_reviewed (review_id review5)) = []"
proof -
  have f: "find (\<lambda>x. review_id x = review_id review5) (reviews shop_reviewed) = Some review5"
    by (simp add: shop_reviewed_def)
  have v: "valid_review review5"
    by (simp add: valid_review_def review5_def)
  have p: "products shop_reviewed (review_product review5) =
             Some (prodP\<lparr>rating_average := 5, rating_count := 1\<rparr>)"
    by (simp add: shop_reviewed_def review5_def)
  have o: "\<forall>x\<in>set (reviews shop_reviewed).
             review_product x = review_product review5 \<and> review_isActive x \<longrightarrow>
             review_id x = review_id review5"
    by (simp add: shop_reviewed_def)
  have pr: "review_product review5 = productP" by (simp add: review5_def)
  have a: "aggregate_of shop_reviewed productP = Some (5, 1)"
    by (simp add: aggregate_of_def shop_reviewed_def)
  have r: "reviews (deleteReview shop_reviewed (review_id review5)) = []"
    by (simp add: deleteReview_found[OF f]) (simp add: shop_reviewed_def)
  from softDelete_only_active_review_stale[OF f v p o] a r show ?thesis
    by (simp add: pr aggregate_of_def)
qed

text \<open>
  C8, at an input where the code does not do what the claim says. A physical delete
  changes no product: the \<open>post('findOneAndDelete')\<close> hook runs on the query, whose
  \<open>this.product\<close> is undefined, and finds no product to update. So after a review of a
  product has been submitted (the hook of \<open>save()\<close> has counted it) and then deleted,
  the product carries the aggregate of the submission; for a product whose stored count
  was the number of its active reviews, that is not the aggregate it had before.
\<close>

theorem submit_then_delete_keeps_submission_aggregate:
  assumes "submitReview s r = (Inr r', s1)"
    and "review_isActive r"
    and "products s (review_product r) = Some p"
    and "rating_count p = length (active_reviews (reviews s) (review_product r))"
  shows "aggregate_of (deleteReview s1 (review_id r)) (review_product r) =
           aggregate_of s1 (review_product r) \<and>
         aggregate_of s1 (review_product r) \<noteq> aggregate_of s (review_product r) \<and>
         reviews (deleteReview s1 (review_id r)) =
           filter (\<lambda>x. review_id x \<noteq> review_id r) (reviews s)"
proof -
  note sub = submitReview_Inr[OF assms(1)]
  let ?s0 = "s\<lparr>reviews := reviews s @ [r']\<rparr>"
  have pr: "review_product r' = review_product r" and act: "review_isActive r'"
    and id: "review_id r' = review_id r"
    using sub assms(2) by simp_all
  have ps: "post_save ?s0 r' = Some s1" using sub by blast
  have rs1: "reviews s1 = reviews s @ [r']"
    using reviews_post_save[OF ps] by simp
  from post_save_count[OF ps, of p] obtain a where
    p1: "products s1 (review_product r) =
           Some (p\<lparr>rating_average := a,
                   rating_count := length (active_reviews (reviews ?s0) (review_product r))\<rparr>)"
    by (auto simp: pr assms(3))
  have cnt: "length (active_reviews (reviews ?s0) (review_product r)) =
               Suc (length (active_reviews (reviews s) (review_product r)))"
    using pr act by (simp add: active_reviews_append)
  have ne: "aggregate_of s1 (review_product r) \<noteq> aggregate_of s (review_product r)"
    using p1 cnt assms(3,4) by (simp add: aggregate_of_def)
  have fnd: "find (\<lambda>x. review_id x = review_id r) (reviews s1) \<noteq> None"
    using id by (auto simp: rs1 find_None_iff)
  then obtain x where x: "find (\<lambda>x. review_id x = review_id r) (reviews s1) = Some x"
    by auto
  have dl: "reviews (deleteReview s1 (review_id r)) =
              filter (\<lambda>x. review_id x \<noteq> review_id r) (reviews s)"
    by (simp add: deleteReview_found[OF x] rs1 id)
  have "aggregate_of (deleteReview s1 (review_id r)) (review_product r) =
           aggregate_of s1 (review_product r)"
    by (simp add: aggregate_of_def products_deleteReview)
  with ne dl show ?thesis by simp
qed

lemma submit_review3:
  "submitReview shop_reviewed review3 =
     (Inr review3,
      \<lparr>products = [productP \<mapsto> prodP\<lparr>rating_average := 4, rating_count := 2\<rparr>],
       orders = [], reviews = [review5, review3]\<rparr>)"
  by (simp del: math_round.simps
        add: submitReview_def post_save_def Product_save_rating_def active_reviews_def
      totalRating_def averageRating_def round1_def valid_review_def duplicate_key_def Let_def
      review_example_defs fl_review_examples math_round_numeral numeral_2_eq_2)

theorem submit_then_delete_keeps_submission_aggregate_witness:
  "aggregate_of shop_reviewed productP = Some (5, 1) \<and>
   submitReview shop_reviewed review3 =
     (Inr review3,
      \<lparr>products = [productP \<mapsto> prodP\<lparr>rating_average := 4, rating_count := 2\<rparr>],
       orders = [], reviews = [review5, review3]\<rparr>) \<and>
   aggregate_of
     (deleteReview
        \<lparr>products = [productP \<mapsto> prodP\<lparr>rating_average := 4, rating_count := 2\<rparr>],
         orders = [], reviews = [review5, review3]\<rparr> (review_id review3)) productP =
     Some (4, 2) \<and>
   reviews
     (deleteReview
        \<lparr>products = [productP \<mapsto> prodP\<lparr>rating_average := 4, rating_count := 2\<rparr>],
         orders = [], reviews = [review5, review3]\<rparr> (review_id review3)) = [review5]"
proof -
  have a: "aggregate_of shop_reviewed productP = Some (5, 1)"
    by (simp add: aggregate_of_def shop_reviewed_def)
  have act: "review_isActive review3" and pr: "review_product review3 = productP"
    by (simp_all add: review3_def)
  have p: "products shop_reviewed (review_product review3) =
             Some (prodP\<lparr>rating_average := 5, rating_count := 1\<rparr>)"
    by (simp add: shop_reviewed_def review3_def)
  have c: "rating_count (prodP\<lparr>rating_average := 5, rating_count := 1\<rparr>) =
             length (active_reviews (reviews shop_reviewed) (review_product review3))"
    by (simp add: active_reviews_def shop_reviewed_def review3_def review5_def)
  have f: "filter (\<lambda>x. review_id x \<noteq> review_id review3) (reviews shop_reviewed) = [review5]"
    by (simp add: shop_reviewed_def review3_def review5_def)
  from submit_then_delete_keeps_submission_aggregate[OF submit_review3 act p c] a submit_review3 f
  show ?thesis by (simp add: pr aggregate_of_def)
qed

text \<open>
  C9. When the store holds a review of the same product by the same buyer, a submission
  fails and leaves the whole state (the review store and every product's aggregate) as
  it was, and the failure of a submission that passes the schema's validators is
  \<open>DuplicateReview\<close>. A store with at most one review for each pair of product and buyer
  stays so under submission, soft delete and physical delete.
\<close>

theorem submitReview_duplicate_refused:
  "((\<exists>r'\<in>set (reviews s). review_product r' = review_product r \<and> review_buyer r' = review_buyer r) \<longrightarrow>
      (\<exists>e. submitReview s r = (Inl e, s)) \<and>
      (1 \<le> rating r \<and> rating r \<le> 5 \<and> (\<forall>c. comment r = Some c \<longrightarrow> length (trim c) \<le> 500) \<longrightarrow>
         submitReview s r = (Inl DuplicateReview, s))) \<and>
   (unique_reviews (reviews s) \<longrightarrow>
      unique_reviews (reviews (snd (submitReview s r))) \<and>
      unique_reviews (reviews (softDeleteReview s rid)) \<and>
      unique_reviews (reviews (deleteReview s rid)))"
proof (intro conjI impI)
  assume d: "\<exists>r'\<in>set (reviews s). review_product r' = review_product r \<and> review_buyer r' = review_buyer r"
  then have dk: "duplicate_key (reviews s) (r\<lparr>comment := map_option trim (comment r)\<rparr>)"
    by (simp add: duplicate_key_iff)
  then show "\<exists>e. submitReview s r = (Inl e, s)"
    by (simp add: submitReview_def Let_def)
  assume "1 \<le> rating r \<and> rating r \<le> 5 \<and> (\<forall>c. comment r = Some c \<longrightarrow> length (trim c) \<le> 500)"
  then have "valid_review (r\<lparr>comment := map_option trim (comment r)\<rparr>)"
    by (auto simp: valid_review_def split: option.splits)
  with dk show "submitReview s r = (Inl DuplicateReview, s)"
    by (simp add: submitReview_def Let_def)
next
  assume u: "unique_reviews (reviews s)"
  show "unique_reviews (reviews (snd (submitReview s r)))"
    using submitReview_reviews[of s r] u
      unique_reviews_append[of "reviews s" r "r\<lparr>comment := map_option trim (comment r)\<rparr>"]
    by auto
  show "unique_reviews (reviews (softDeleteReview s rid))"
    using u by (simp add: unique_reviews_def reviews_softDeleteReview)
  show "unique_reviews (reviews (deleteReview s rid))"
    using u reviews_deleteReview[of s rid]
    by (auto simp: unique_reviews_def distinct_map_filter)
qed

theorem submitReview_duplicate_refused_witness:
  "review_buyer review_again = review_buyer review5 \<and>
   review_product review_again = review_product review5 \<and>
   review_id review_again \<noteq> review_id review5 \<and>
   submitReview shop_reviewed review_again = (Inl DuplicateReview, shop_reviewed) \<and>
   unique_reviews (reviews shop_reviewed)"
proof -
  have k: "review_buyer review_again = review_buyer review5 \<and>
           review_product review_again = review_product review5 \<and>
           review_id review_again \<noteq> review_id review5"
    by (simp add: review_again_def review5_def)
  have d: "\<exists>r'\<in>set (reviews shop_reviewed).
             review_product r' = review_product review_again \<and>
             review_buyer r' = review_buyer review_again"
    by (simp add: shop_reviewed_def k)
  have v: "1 \<le> rating review_again \<and> rating review_again \<le> 5 \<and>
           (\<forall>c. comment review_again = Some c \<longrightarrow> length (trim c) \<le> 500)"
    by (simp add: review_again_def)
  have u: "unique_reviews (reviews shop_reviewed)"
    by (simp add: unique_reviews_def shop_reviewed_def)
  from submitReview_duplicate_refused[of shop_reviewed review_again] d v
  have "submitReview shop_reviewed review_again = (Inl DuplicateReview, shop_reviewed)"
    by blast
  with k u show ?thesis by simp
qed

section \<open>Two requests for the last unit\<close>

lemma unsaved_not_created: "unsaved t \<Longrightarrow> t \<noteq> Responded (Inr ord)"
  by (cases t) auto

lemma check_item_last_unit:
  assumes "cast_ObjectId pid' = Some pid" and "products s pid = Some p" and "quantity p = 1"
    and "isActive p" and "isApproved p" and "isAvailable p"
  shows "check_item (products s) \<lparr>productId = pid', req_quantity = 1\<rparr> =
           Inr (\<lparr>item_product = pid, item_quantity = 1, item_price = price p,
                  item_farmer = farmer p\<rparr>, js_times (Num (price p)) (Num 1))"
  using assms by (simp add: check_item_def fl_examples)

text \<open>
  C4, at an input where the code does not do what the claim says. One unit of a product
  is in stock and two requests ask for one unit each. Both handlers pass the stock
  check, and both end at \<open>order.save()\<close>, which rejects the document without an
  \<open>orderNumber\<close>: taking turns at their awaits or one after the other, both are answered
  with status 500, and the state is as it was, the quantity still 1. Under every
  schedule the state stays as it was and neither handler answers with an order; so it
  is for any number of requests, whatever they ask for.
\<close>

theorem interleaved_orders_both_rejected:
  assumes "cast_ObjectId pid' = Some pid" and "products s pid = Some p" and "quantity p = 1"
    and "isActive p" and "isApproved p" and "isAvailable p"
    and "valid_order_request (job_req j1)"
    and "req_items (job_req j1) = [\<lparr>productId = pid', req_quantity = 1\<rparr>]"
    and "valid_order_request (job_req j2)"
    and "req_items (job_req j2) = [\<lparr>productId = pid', req_quantity = 1\<rparr>]"
  shows "run [0, 1, 0, 1] [(j1, start j1), (j2, start j2)] s =
           ([(j1, Responded (Inl ServerError)), (j2, Responded (Inl ServerError))], s) \<and>
         run [0, 0, 1, 1] [(j1, start j1), (j2, start j2)] s =
           ([(j1, Responded (Inl ServerError)), (j2, Responded (Inl ServerError))], s) \<and>
         (\<forall>sched. snd (run sched [(j1, start j1), (j2, start j2)] s) = s \<and>
            list_all (\<lambda>jt. \<forall>ord. snd jt \<noteq> Responded (Inr ord))
              (fst (run sched [(j1, start j1), (j2, start j2)] s))) \<and>
         (\<forall>sched js s0. snd (run sched (map (\<lambda>j. (j, start j)) js) s0) = s0 \<and>
            list_all (\<lambda>jt. \<forall>ord. snd jt \<noteq> Responded (Inr ord))
              (fst (run sched (map (\<lambda>j. (j, start j)) js) s0)))"
proof (intro conjI allI)
  note c = check_item_last_unit[OF assms(1-6)]
  show "run [0, 1, 0, 1] [(j1, start j1), (j2, start j2)] s =
           ([(j1, Responded (Inl ServerError)), (j2, Responded (Inl ServerError))], s)"
    by (simp add: start_def assms(7-10) c Order_save_new_Order)
  show "run [0, 0, 1, 1] [(j1, start j1), (j2, start j2)] s =
           ([(j1, Responded (Inl ServerError)), (j2, Responded (Inl ServerError))], s)"
    by (simp add: start_def assms(7-10) c Order_save_new_Order)
next
  fix sched
  have u: "list_all (\<lambda>jt. unsaved (snd jt)) [(j1, start j1), (j2, start j2)]"
    by (simp add: unsaved_start)
  from run_unsaved[OF u, of sched s]
  show "snd (run sched [(j1, start j1), (j2, start j2)] s) = s" by simp
  from run_unsaved[OF u, of sched s]
  have "list_all (\<lambda>jt. unsaved (snd jt)) (fst (run sched [(j1, start j1), (j2, start j2)] s))"
    by simp
  then show "list_all (\<lambda>jt. \<forall>ord. snd jt \<noteq> Responded (Inr ord))
              (fst (run sched [(j1, start j1), (j2, start j2)] s))"
    by (auto simp: list_all_iff unsaved_not_created)
next
  fix sched js s0
  from run_started[of sched js s0]
  show "snd (run sched (map (\<lambda>j. (j, start j)) js) s0) = s0" by simp
  from run_started[of sched js s0]
  have "list_all (\<lambda>jt. unsaved (snd jt)) (fst (run sched (map (\<lambda>j. (j, start j)) js) s0))"
    by simp
  then show "list_all (\<lambda>jt. \<forall>ord. snd jt \<noteq> Responded (Inr ord))
              (fst (run sched (map (\<lambda>j. (j, start j)) js) s0))"
    by (auto simp: list_all_iff unsaved_not_created)
qed

theorem interleaved_orders_both_rejected_witness:
  "map_option quantity (products shop1 productP) = Some 1 \<and>
   run [0, 1, 0, 1] [(jobB, start jobB), (jobC, start jobC)] shop1 =
     ([(jobB, Responded (Inl ServerError)), (jobC, Responded (Inl ServerError))], shop1) \<and>
   run [0, 0, 1, 1] [(jobB, start jobB), (jobC, start jobC)] shop1 =
     ([(jobB, Responded (Inl ServerError)), (jobC, Responded (Inl ServerError))], shop1)"
proof -
  have q: "map_option quantity (products shop1 productP) = Some 1"
    by (simp add: shop1_def prodP_def)
  have c: "cast_ObjectId productP = Some productP"
    by (simp add: id_defs productP_def)
  have p: "products shop1 productP = Some (prodP\<lparr>quantity := 1\<rparr>)"
    by (simp add: shop1_def)
  have f: "quantity (prodP\<lparr>quantity := 1\<rparr>) = 1" "isActive (prodP\<lparr>quantity := 1\<rparr>)"
    "isApproved (prodP\<lparr>quantity := 1\<rparr>)" "isAvailable (prodP\<lparr>quantity := 1\<rparr>)"
    by (simp_all add: prodP_def)
  have r: "valid_order_request (job_req jobB)"
    "req_items (job_req jobB) = [\<lparr>productId = productP, req_quantity = 1\<rparr>]"
    "valid_order_request (job_req jobC)"
    "req_items (job_req jobC) = [\<lparr>productId = productP, req_quantity = 1\<rparr>]"
    by (simp_all add: jobB_def jobC_def valid_examples) (simp_all add: request1_def)
  from interleaved_orders_both_rejected[OF c p f r] q show ?thesis by simp
qed

end
